theory Spec2Isabelle
  imports Complex_Main "HOL-Library.AList"
begin

section \<open>JavaScript numbers\<close>

text \<open>
  A JavaScript \<open>number\<close> is modelled as an exact real extended with the three special
  values of IEEE arithmetic that the handler can produce by dividing by a zero client
  size: \<open>Infinity\<close>, \<open>-Infinity\<close> and \<open>NaN\<close>. The rounding of binary64 is not
  modelled, nor is its overflow: a sum, product or quotient of finite numbers is the
  exact real, where binary64 rounds it to the nearest double and yields an infinity
  beyond about \<open>1.8e308\<close>. Zero carries no sign (a zero divisor counts as \<open>+0\<close>).
\<close>

datatype jsnum = Num real | PosInf | NegInf | NaN

fun jneg :: "jsnum \<Rightarrow> jsnum" where
  "jneg (Num a) = Num (- a)"
| "jneg PosInf = NegInf"
| "jneg NegInf = PosInf"
| "jneg NaN = NaN"

fun jadd :: "jsnum \<Rightarrow> jsnum \<Rightarrow> jsnum" where
  "jadd NaN _ = NaN"
| "jadd _ NaN = NaN"
| "jadd (Num a) (Num b) = Num (a + b)"
| "jadd (Num a) PosInf = PosInf"
| "jadd (Num a) NegInf = NegInf"
| "jadd PosInf (Num b) = PosInf"
| "jadd NegInf (Num b) = NegInf"
| "jadd PosInf PosInf = PosInf"
| "jadd NegInf NegInf = NegInf"
| "jadd PosInf NegInf = NaN"
| "jadd NegInf PosInf = NaN"

definition jsub :: "jsnum \<Rightarrow> jsnum \<Rightarrow> jsnum" where
  "jsub a b = jadd a (jneg b)"

text \<open>The sign of a product or quotient with an infinite operand.\<close>

definition signed_inf :: "bool \<Rightarrow> jsnum" where
  "signed_inf positive = (if positive then PosInf else NegInf)"

fun jmul :: "jsnum \<Rightarrow> jsnum \<Rightarrow> jsnum" where
  "jmul NaN _ = NaN"
| "jmul _ NaN = NaN"
| "jmul (Num a) (Num b) = Num (a * b)"
| "jmul (Num a) PosInf = (if a = 0 then NaN else signed_inf (0 < a))"
| "jmul (Num a) NegInf = (if a = 0 then NaN else signed_inf (a < 0))"
| "jmul PosInf (Num b) = (if b = 0 then NaN else signed_inf (0 < b))"
| "jmul NegInf (Num b) = (if b = 0 then NaN else signed_inf (b < 0))"
| "jmul PosInf PosInf = PosInf"
| "jmul NegInf NegInf = PosInf"
| "jmul PosInf NegInf = NegInf"
| "jmul NegInf PosInf = NegInf"

fun jdiv :: "jsnum \<Rightarrow> jsnum \<Rightarrow> jsnum" where
  "jdiv NaN _ = NaN"
| "jdiv _ NaN = NaN"
| "jdiv (Num a) (Num b) =
     (if b = 0 then (if a = 0 then NaN else signed_inf (0 < a)) else Num (a / b))"
| "jdiv (Num a) PosInf = Num 0"
| "jdiv (Num a) NegInf = Num 0"
| "jdiv PosInf (Num b) = signed_inf (0 \<le> b)"
| "jdiv NegInf (Num b) = signed_inf (b < 0)"
| "jdiv PosInf PosInf = NaN"
| "jdiv NegInf NegInf = NaN"
| "jdiv PosInf NegInf = NaN"
| "jdiv NegInf PosInf = NaN"

text \<open>Comparisons: every comparison with \<open>NaN\<close> is false.\<close>

fun jlt :: "jsnum \<Rightarrow> jsnum \<Rightarrow> bool" where
  "jlt NaN _ = False"
| "jlt _ NaN = False"
| "jlt (Num a) (Num b) = (a < b)"
| "jlt (Num a) PosInf = True"
| "jlt (Num a) NegInf = False"
| "jlt PosInf _ = False"
| "jlt NegInf (Num b) = True"
| "jlt NegInf PosInf = True"
| "jlt NegInf NegInf = False"

fun jle :: "jsnum \<Rightarrow> jsnum \<Rightarrow> bool" where
  "jle NaN _ = False"
| "jle _ NaN = False"
| "jle (Num a) (Num b) = (a \<le> b)"
| "jle (Num a) PosInf = True"
| "jle (Num a) NegInf = False"
| "jle PosInf PosInf = True"
| "jle PosInf _ = False"
| "jle NegInf _ = True"

definition jgt :: "jsnum \<Rightarrow> jsnum \<Rightarrow> bool" where
  "jgt a b = jlt b a"

definition jge :: "jsnum \<Rightarrow> jsnum \<Rightarrow> bool" where
  "jge a b = jle b a"

fun Math_round :: "jsnum \<Rightarrow> jsnum" where
  "Math_round (Num a) = Num (of_int \<lfloor>a + 1 / 2\<rfloor>)"
| "Math_round v = v"

fun Math_ceil :: "jsnum \<Rightarrow> jsnum" where
  "Math_ceil (Num a) = Num (of_int \<lceil>a\<rceil>)"
| "Math_ceil v = v"

fun Math_max :: "jsnum \<Rightarrow> jsnum \<Rightarrow> jsnum" where
  "Math_max NaN _ = NaN"
| "Math_max _ NaN = NaN"
| "Math_max a b = (if jlt a b then b else a)"

fun Math_min :: "jsnum \<Rightarrow> jsnum \<Rightarrow> jsnum" where
  "Math_min NaN _ = NaN"
| "Math_min _ NaN = NaN"
| "Math_min a b = (if jlt b a then b else a)"

section \<open>Data model\<close>

text \<open>
  Field names that would collide with each other or with variables carry a prefix:
  \<open>p_x\<close>, \<open>p_y\<close> for \<open>Point\<close>, \<open>s_width\<close>, \<open>s_height\<close> for \<open>Size\<close> and for the
  \<open>{width, height}\<close> of \<open>TouchOnClient.client\<close>, \<open>ev_type\<close> for the \<open>type\<close> of an event,
  \<open>touch_\<close> for the fields of a DOM touch, \<open>te_\<close> for those of a \<open>TouchEvent\<close>.
\<close>

record Point =
  p_x :: jsnum
  p_y :: jsnum

record Size =
  s_width :: jsnum
  s_height :: jsnum

record Position =
  point :: Point
  screenSize :: Size

text \<open>
  The module \<open>MotionEvent\<close> is not part of the sources at hand. Its constants are kept
  symbolic: the three actions of the event table, and \<open>BUTTON_TERTIARY\<close> beside the two
  literal button codes of \<open>BUTTONS_MAP\<close>.
\<close>

datatype MotionAction = ACTION_DOWN | ACTION_UP | ACTION_MOVE

datatype ButtonCode = ButtonLiteral int | BUTTON_TERTIARY

record Touch =
  action :: MotionAction
  position :: Position
  buttons :: "ButtonCode option"

record TouchOnClient =
  client :: Size
  touch :: Touch

text \<open>
  DOM elements are references; the document gives each one its layout box and says
  whether \<open>getContext('2d')\<close> yields a context. \<open>scrollTop\<close> and \<open>scrollLeft\<close> are
  those of the \<open>html\<close> element.
\<close>

type_synonym element = nat

record ElementBox =
  clientWidth :: jsnum
  clientHeight :: jsnum
  offsetLeft :: jsnum
  offsetTop :: jsnum
  context2d :: bool

record Document =
  element :: "element \<Rightarrow> ElementBox"
  scrollTop :: jsnum
  scrollLeft :: jsnum

text \<open>
  Events reach the handler from a listener, so \<open>target\<close> is a live element here; the
  \<open>null\<close> that the interface type admits is not modelled.
\<close>

record CommonTouchAndMouse =
  clientX :: jsnum
  clientY :: jsnum
  ev_type :: string
  target :: element
  button :: int

record MouseEvent = CommonTouchAndMouse +
  ctrlKey :: bool
  shiftKey :: bool

record DomTouch =
  touch_identifier :: int
  touch_target :: element
  touch_clientX :: jsnum
  touch_clientY :: jsnum
  force :: jsnum

record TouchEvent =
  te_type :: string
  te_target :: element
  changedTouches :: "DomTouch list"

record ScreenInfo =
  videoSize :: Size

text \<open>
  \<open>TouchControlEvent\<close> is constructed from
  \<open>(action, pointerId, position, pressure, buttons)\<close>; the record keeps the five arguments.
\<close>

record TouchControlEvent =
  tce_action :: MotionAction
  tce_pointerId :: int
  tce_position :: Position
  tce_pressure :: jsnum
  tce_buttons :: "ButtonCode option"

text \<open>
  The static fields of \<open>TouchHandler\<close>. A \<open>Map\<close> is an association list with one entry
  per key, read with \<open>map_of\<close>. \<open>dirtyPlace\<close> is an array that is either empty or holds
  \<open>[topLeft, bottomRight]\<close> (its only writer, \<open>updateDirty\<close>, pushes both points at once),
  so it is an optional pair. \<open>cleared\<close> logs the \<open>clearRect(x, y, w, h)\<close> calls made on the
  2d context of an element.
\<close>

record state =
  multiTouchActive :: bool
  multiTouchCenter :: "Point option"
  multiTouchShift :: bool
  dirtyPlace :: "(Point \<times> Point) option"
  idToPointerMap :: "(int \<times> int) list"
  pointerToIdMap :: "(int \<times> int) list"
  cleared :: "(element \<times> jsnum \<times> jsnum \<times> jsnum \<times> jsnum) list"

definition initial :: state where
  "initial = \<lparr> multiTouchActive = False, multiTouchCenter = None, multiTouchShift = False,
     dirtyPlace = None, idToPointerMap = [], pointerToIdMap = [], cleared = [] \<rparr>"

section \<open>Pointer ids\<close>

definition has :: "(int \<times> int) list \<Rightarrow> int \<Rightarrow> bool" where
  "has m k = (map_of m k \<noteq> None)"

text \<open>
  The search loop of \<open>getPointerId\<close>:
  \<^verbatim>\<open>while (this.idToPointerMap.has(pointerId)) { pointerId++; }\<close>
  with the map it tests as its first argument. A map has finitely many keys, so the loop
  ends: the distance to the largest key shrinks.
\<close>

function search :: "(int \<times> int) list \<Rightarrow> int \<Rightarrow> int" where
  "search m pointerId = (if has m pointerId then search m (pointerId + 1) else pointerId)"
  by pat_completeness auto
termination
proof (relation "measure (\<lambda>(m, p). nat (Max (insert 0 (fst ` set m)) + 1 - p))")
  show "wf (measure (\<lambda>(m, p). nat (Max (insert 0 (fst ` set m)) + 1 - p)))"
    by simp
next
  fix m :: "(int \<times> int) list" and pointerId :: int
  assume "has m pointerId"
  then have "pointerId \<in> fst ` set m"
    by (auto simp: has_def dest: map_of_SomeD intro: rev_image_eqI)
  then have "pointerId \<le> Max (insert 0 (fst ` set m))"
    by (intro Max_ge) auto
  then show "((m, pointerId + 1), (m, pointerId))
      \<in> measure (\<lambda>(m, p). nat (Max (insert 0 (fst ` set m)) + 1 - p))"
    by simp
qed

declare search.simps [simp del]

definition terminal :: "string \<Rightarrow> bool" where
  "terminal ty = (ty = ''touchend'' \<or> ty = ''touchcancel'')"

definition getPointerId :: "string \<Rightarrow> int \<Rightarrow> state \<Rightarrow> int \<times> state" where
  "getPointerId ty ident s =
     (case map_of (idToPointerMap s) ident of
        Some pointerId \<Rightarrow>
          (if terminal ty
           then (pointerId, s\<lparr> idToPointerMap := AList.delete ident (idToPointerMap s),
                               pointerToIdMap := AList.delete pointerId (pointerToIdMap s) \<rparr>)
           else (pointerId, s))
      | None \<Rightarrow>
          (let pointerId = search (idToPointerMap s) 0
           in (pointerId, s\<lparr> idToPointerMap := AList.update ident pointerId (idToPointerMap s),
                               pointerToIdMap := AList.update pointerId ident (pointerToIdMap s) \<rparr>)))"

section \<open>Coordinates\<close>

text \<open>
  The two tables hold their own keys only. Event types are the names the browser gives
  to touch and mouse events; the members that a plain object inherits from
  \<open>Object.prototype\<close> (a type named \<open>toString\<close>, say) are not modelled.
\<close>

definition EVENT_ACTION_MAP :: "string \<Rightarrow> MotionAction option" where
  "EVENT_ACTION_MAP = map_of
     [(''touchstart'', ACTION_DOWN),
      (''touchend'', ACTION_UP),
      (''touchmove'', ACTION_MOVE),
      (''touchcancel'', ACTION_UP),
      (''mousedown'', ACTION_DOWN),
      (''mousemove'', ACTION_MOVE),
      (''mouseup'', ACTION_UP)]"

definition BUTTONS_MAP :: "int \<Rightarrow> ButtonCode option" where
  "BUTTONS_MAP = map_of [(0, ButtonLiteral 17), (1, BUTTON_TERTIARY), (2, ButtonLiteral 26)]"

text \<open>
  The last lines of \<open>calculateCoordinates\<close>, from \<open>const x = touchX * width / clientWidth\<close>
  on, which all three branches of the aspect-ratio test reach with their own values of the
  mutable locals \<open>touchX\<close>, \<open>touchY\<close>, \<open>clientWidth\<close> and \<open>clientHeight\<close>.
\<close>

definition scaled :: "MotionAction \<Rightarrow> jsnum \<Rightarrow> jsnum \<Rightarrow> jsnum \<Rightarrow> jsnum \<Rightarrow> jsnum \<Rightarrow> jsnum
    \<Rightarrow> int \<Rightarrow> TouchOnClient" where
  "scaled act width height touchX touchY cWidth cHeight btn =
     (let x = jdiv (jmul touchX width) cWidth;
          y = jdiv (jmul touchY height) cHeight
      in \<lparr> client = \<lparr> s_width = cWidth, s_height = cHeight \<rparr>,
           touch = \<lparr> action = act,
                     position = \<lparr> point = \<lparr> p_x = x, p_y = y \<rparr>,
                                  screenSize = \<lparr> s_width = width, s_height = height \<rparr> \<rparr>,
                     buttons = BUTTONS_MAP btn \<rparr> \<rparr>)"

definition calculateCoordinates ::
    "Document \<Rightarrow> 'a CommonTouchAndMouse_scheme \<Rightarrow> ScreenInfo option \<Rightarrow> TouchOnClient option" where
  "calculateCoordinates doc e screenInfo =
     (case EVENT_ACTION_MAP (ev_type e) of
        None \<Rightarrow> None
      | Some act \<Rightarrow>
     (case screenInfo of
        None \<Rightarrow> None
      | Some info \<Rightarrow>
         (let width = s_width (videoSize info);
              height = s_height (videoSize info);
              box = element doc (target e);
              touchX = jadd (jsub (clientX e) (offsetLeft box)) (scrollLeft doc);
              touchY = jadd (jsub (clientY e) (offsetTop box)) (scrollTop doc);
              eps = Num 100000;
              ratio = jdiv width height;
              shouldBe = Math_round (jmul eps ratio);
              haveNow = Math_round (jdiv (jmul eps (clientWidth box)) (clientHeight box))
          in if jgt shouldBe haveNow then
               (let realHeight = Math_ceil (jdiv (clientWidth box) ratio);
                    marginTop = jdiv (jsub (clientHeight box) realHeight) (Num 2)
                in if jlt touchY marginTop \<or> jgt touchY (jadd marginTop realHeight) then None
                   else Some (scaled act width height touchX (jsub touchY marginTop)
                                (clientWidth box) realHeight (button e)))
             else if jlt shouldBe haveNow then
               (let realWidth = Math_ceil (jmul (clientHeight box) ratio);
                    marginLeft = jdiv (jsub (clientWidth box) realWidth) (Num 2)
                in if jlt touchX marginLeft \<or> jgt touchX (jadd marginLeft realWidth) then None
                   else Some (scaled act width height (jsub touchX marginLeft) touchY
                                realWidth (clientHeight box) (button e)))
             else Some (scaled act width height touchX touchY
                          (clientWidth box) (clientHeight box) (button e)))))"

section \<open>Dirty region\<close>

definition updateDirty :: "Point \<Rightarrow> Point \<Rightarrow> state \<Rightarrow> state" where
  "updateDirty topLeft bottomRight s =
     (case dirtyPlace s of
        None \<Rightarrow> s\<lparr> dirtyPlace := Some (topLeft, bottomRight) \<rparr>
      | Some (currentTopLeft, currentBottomRight) \<Rightarrow>
          (let newTopLeft = \<lparr> p_x = Math_min (p_x currentTopLeft) (p_x topLeft),
                              p_y = Math_min (p_y currentTopLeft) (p_y topLeft) \<rparr>;
               newBottomRight = \<lparr> p_x = Math_max (p_x currentBottomRight) (p_x bottomRight),
                                  p_y = Math_max (p_y currentBottomRight) (p_y bottomRight) \<rparr>
           in s\<lparr> dirtyPlace := Some (newTopLeft, newBottomRight) \<rparr>))"

definition clearCanvas :: "Document \<Rightarrow> element \<Rightarrow> state \<Rightarrow> state" where
  "clearCanvas doc tgt s =
     (let box = element doc tgt
      in case dirtyPlace s of
           None \<Rightarrow> s
         | Some (topLeft, bottomRight) \<Rightarrow>
             if context2d box then
               (let x = Math_max (p_x topLeft) (Num 0);
                    y = Math_max (p_y topLeft) (Num 0);
                    w = Math_min (clientWidth box) (jsub (p_x bottomRight) x);
                    h = Math_min (clientHeight box) (jsub (p_y bottomRight) y)
                in s\<lparr> cleared := cleared s @ [(tgt, x, y, w, h)] \<rparr>)
             else s)"

section \<open>Simulated second contact\<close>

text \<open>
  The choice of the second contact in \<open>getTouch\<close> (\<open>let opposite: Point | undefined\<close> up to
  the test \<open>if (opposite)\<close>), read in the state in which \<open>multiTouchActive\<close> has just been
  set: \<open>cl\<close> is \<open>touchOnClient.client\<close> and \<open>t\<close> the mapped touch.
\<close>

definition opposite :: "state \<Rightarrow> Size \<Rightarrow> Touch \<Rightarrow> Point option" where
  "opposite s cl t =
     (let width = s_width (screenSize (position t));
          height = s_height (screenSize (position t));
          x = p_x (point (position t));
          y = p_y (point (position t))
      in case (if multiTouchShift s then multiTouchCenter s else None) of
           Some c \<Rightarrow>
             (let oppoX = jsub (jmul (Num 2) (p_x c)) x;
                  oppoY = jsub (jmul (Num 2) (p_y c)) y
              in if jle oppoX width \<and> jge oppoX (Num 0) \<and> jle oppoY height \<and> jge oppoY (Num 0)
                 then Some \<lparr> p_x = oppoX, p_y = oppoY \<rparr>
                 else None)
         | None \<Rightarrow> Some \<lparr> p_x = jsub (s_width cl) x, p_y = jsub (s_height cl) y \<rparr>)"

definition getTouch ::
    "Document \<Rightarrow> MouseEvent \<Rightarrow> ScreenInfo option \<Rightarrow> state \<Rightarrow> Touch list option \<times> state" where
  "getTouch doc e screenInfo s =
     (case calculateCoordinates doc e screenInfo of
        None \<Rightarrow> (None, s)
      | Some touchOnClient \<Rightarrow>
          (let cl = client touchOnClient;
               t = touch touchOnClient
           in if \<not> ctrlKey e then
                (Some [t],
                 clearCanvas doc (target e)
                   (s\<lparr> multiTouchActive := False, multiTouchCenter := None,
                       multiTouchShift := False \<rparr>))
              else
                (let s1 = (if \<not> multiTouchActive s then
                             (if shiftKey e then
                                s\<lparr> multiTouchCenter := Some (point (position t)),
                                    multiTouchShift := True \<rparr>
                              else
                                s\<lparr> multiTouchCenter :=
                                      Some \<lparr> p_x = jdiv (s_width cl) (Num 2),
                                             p_y = jdiv (s_height cl) (Num 2) \<rparr> \<rparr>)
                           else s);
                     s2 = s1\<lparr> multiTouchActive := True \<rparr>
                 in case opposite s2 cl t of
                      None \<Rightarrow> (Some [t], s2)
                    | Some opp \<Rightarrow>
                        (Some [t, \<lparr> action = action t,
                                    position = \<lparr> point = opp,
                                                 screenSize = screenSize (position t) \<rparr>,
                                    buttons = buttons t \<rparr>], s2))))"

section \<open>Touch events\<close>

text \<open>The body of the \<open>for\<close> loop of \<open>formatTouchEvent\<close>, run over \<open>changedTouches\<close>.\<close>

fun formatTouches :: "Document \<Rightarrow> TouchEvent \<Rightarrow> ScreenInfo option \<Rightarrow> element \<Rightarrow> DomTouch list
    \<Rightarrow> TouchControlEvent list \<Rightarrow> state \<Rightarrow> TouchControlEvent list \<times> state" where
  "formatTouches doc e screenInfo tag [] events s = (events, s)"
| "formatTouches doc e screenInfo tag (t # ts) events s =
     (case getPointerId (te_type e) (touch_identifier t) s of
        (pointerId, s') \<Rightarrow>
          if touch_target t \<noteq> tag then formatTouches doc e screenInfo tag ts events s'
          else
            (let item = \<lparr> clientX = touch_clientX t, clientY = touch_clientY t,
                          ev_type = te_type e, target = te_target e, button = 0 \<rparr>
             in case calculateCoordinates doc item screenInfo of
                  Some event \<Rightarrow>
                    formatTouches doc e screenInfo tag ts
                      (events @ [\<lparr> tce_action = action (touch event),
                                    tce_pointerId = pointerId,
                                    tce_position = position (touch event),
                                    tce_pressure = jmul (force t) (Num 255),
                                    tce_buttons = buttons (touch event) \<rparr>]) s'
                | None \<Rightarrow> formatTouches doc e screenInfo tag ts events s'))"

definition formatTouchEvent :: "Document \<Rightarrow> TouchEvent \<Rightarrow> ScreenInfo option \<Rightarrow> element \<Rightarrow> state
    \<Rightarrow> TouchControlEvent list option \<times> state" where
  "formatTouchEvent doc e screenInfo tag s =
     (case formatTouches doc e screenInfo tag (changedTouches e) [] s of
        (events, s') \<Rightarrow> (if events \<noteq> [] then Some events else None, s'))"

section \<open>Sequences of calls\<close>

text \<open>
  A run of \<open>getPointerId(type, identifier)\<close> calls, one after the other on the shared
  maps; the properties of the allocator over time are stated on such runs.
\<close>

fun acquireAll :: "(string \<times> int) list \<Rightarrow> state \<Rightarrow> state" where
  "acquireAll [] s = s"
| "acquireAll ((ty, ident) # calls) s = acquireAll calls (snd (getPointerId ty ident s))"

section \<open>Ranges and pages\<close>

text \<open>
  The valid range of a device point, \<open>[0, videoWidth] \<times> [0, videoHeight]\<close>, both ends
  included.
\<close>

definition inVideoRange :: "Point \<Rightarrow> Size \<Rightarrow> bool" where
  "inVideoRange p sz =
     (jle (Num 0) (p_x p) \<and> jle (p_x p) (s_width sz) \<and>
      jle (Num 0) (p_y p) \<and> jle (p_y p) (s_height sz))"

text \<open>A document all of whose elements share one layout box, for concrete examples.\<close>

definition page :: "ElementBox \<Rightarrow> jsnum \<Rightarrow> jsnum \<Rightarrow> Document" where
  "page box sTop sLeft = \<lparr> element = (\<lambda>_. box), scrollTop = sTop, scrollLeft = sLeft \<rparr>"

text \<open>Shorthands for the concrete inputs of the examples.\<close>

definition box :: "real \<Rightarrow> real \<Rightarrow> ElementBox" where
  "box w h = \<lparr> clientWidth = Num w, clientHeight = Num h, offsetLeft = Num 0, offsetTop = Num 0,
     context2d = True \<rparr>"

definition video :: "real \<Rightarrow> real \<Rightarrow> ScreenInfo option" where
  "video w h = Some \<lparr> videoSize = \<lparr> s_width = Num w, s_height = Num h \<rparr> \<rparr>"

definition mouse :: "string \<Rightarrow> real \<Rightarrow> real \<Rightarrow> bool \<Rightarrow> bool \<Rightarrow> MouseEvent" where
  "mouse ty x y ctrl shift = \<lparr> clientX = Num x, clientY = Num y, ev_type = ty, target = 0,
     button = 0, ctrlKey = ctrl, shiftKey = shift \<rparr>"

section \<open>The search loop\<close>

lemma search_step: "has m p \<Longrightarrow> search m p = search m (p + 1)"
  by (subst search.simps) simp

lemma search_stop: "\<not> has m p \<Longrightarrow> search m p = p"
  by (subst search.simps) simp

lemma search_ge: "p \<le> search m p"
proof (induction m p rule: search.induct)
  case (1 m p)
  show ?case
  proof (cases "has m p")
    case True
    with 1 have "p + 1 \<le> search m (p + 1)" by simp
    with True show ?thesis by (simp add: search_step)
  next
    case False
    then show ?thesis by (simp add: search_stop)
  qed
qed

lemma search_free: "\<not> has m (search m p)"
proof (induction m p rule: search.induct)
  case (1 m p)
  show ?case
  proof (cases "has m p")
    case True
    with 1 show ?thesis by (simp add: search_step)
  next
    case False
    then show ?thesis by (simp add: search_stop)
  qed
qed

lemma search_below: "p \<le> q \<Longrightarrow> q < search m p \<Longrightarrow> has m q"
proof (induction m p rule: search.induct)
  case (1 m p)
  show ?case
  proof (cases "has m p")
    case True
    show ?thesis
    proof (cases "q = p")
      case True
      with \<open>has m p\<close> show ?thesis by simp
    next
      case False
      with 1 True show ?thesis by (simp add: search_step)
    qed
  next
    case False
    with 1 show ?thesis by (simp add: search_stop)
  qed
qed

section \<open>The pointer-id allocator\<close>

text \<open>
  An identifier that is mapped keeps its pointer id through any call that is not a
  terminal event for that same identifier.
\<close>

lemma getPointerId_keeps:
  assumes "map_of (idToPointerMap s) ident = Some p"
    and "\<not> (ident' = ident \<and> terminal ty)"
  shows "map_of (idToPointerMap (snd (getPointerId ty ident' s))) ident = Some p"
proof (cases "ident' = ident")
  case True
  with assms show ?thesis by (simp add: getPointerId_def)
next
  case False
  with assms(1) show ?thesis
    by (simp add: getPointerId_def Let_def update_conv' delete_conv' split: option.splits)
qed

lemma acquireAll_keeps:
  assumes "map_of (idToPointerMap s) ident = Some p"
    and "\<forall>c \<in> set calls. \<not> (snd c = ident \<and> terminal (fst c))"
  shows "map_of (idToPointerMap (acquireAll calls s)) ident = Some p"
  using assms
proof (induction calls arbitrary: s)
  case Nil
  then show ?case by simp
next
  case (Cons c calls)
  obtain ty ident' where c: "c = (ty, ident')" by (cases c)
  from Cons.prems have "\<not> (ident' = ident \<and> terminal ty)" by (simp add: c)
  with Cons.prems(1) have "map_of (idToPointerMap (snd (getPointerId ty ident' s))) ident = Some p"
    by (rule getPointerId_keeps)
  moreover from Cons.prems have "\<forall>c \<in> set calls. \<not> (snd c = ident \<and> terminal (fst c))" by simp
  ultimately show ?case using Cons.IH by (simp add: c)
qed

lemma getPointerId_release:
  assumes "map_of (idToPointerMap s) ident = Some p"
    and "terminal ty"
  shows "fst (getPointerId ty ident s) = p \<and>
    map_of (idToPointerMap (snd (getPointerId ty ident s))) ident = None \<and>
    map_of (pointerToIdMap (snd (getPointerId ty ident s))) p = None"
  using assms by (simp add: getPointerId_def delete_conv')

text \<open>
  C1. The claim: after every sequence of \<open>getPointerId\<close> calls the two maps are exact
  inverses, and a newly allocated pointer id is the smallest non-negative integer not in
  use as a pointer id. The loop tests \<open>idToPointerMap\<close>, whose keys are raw identifiers,
  where the pointer ids in use are the keys of \<open>pointerToIdMap\<close>. Two \<open>touchstart\<close>
  contacts with the identifiers 1 and 5 therefore both receive pointer id 0: the second
  call finds no identifier 0 among the keys, although pointer id 0 is in use. Afterwards
  \<open>idToPointerMap\<close> sends 1 and 5 to 0 while \<open>pointerToIdMap\<close> sends 0 to 5 only.
\<close>

theorem getPointerId_collision:
  "getPointerId ''touchstart'' 1 initial
     = (0, initial\<lparr> idToPointerMap := [(1, 0)], pointerToIdMap := [(0, 1)] \<rparr>) \<and>
   getPointerId ''touchstart'' 5
       (initial\<lparr> idToPointerMap := [(1, 0)], pointerToIdMap := [(0, 1)] \<rparr>)
     = (0, initial\<lparr> idToPointerMap := [(1, 0), (5, 0)], pointerToIdMap := [(0, 5)] \<rparr>)"
  by (simp add: getPointerId_def initial_def has_def terminal_def search_step search_stop)

text \<open>
  C9. An identifier that is mapped to \<open>p\<close> is given \<open>p\<close> again by every later call,
  whatever calls came in between, as long as none of them was a terminal event
  (\<open>touchend\<close>, \<open>touchcancel\<close>) for that identifier. A terminal event for it still
  returns \<open>p\<close> and removes exactly the entry of the identifier from \<open>idToPointerMap\<close> and
  the entry of \<open>p\<close> from \<open>pointerToIdMap\<close>; any other event type leaves the state as it
  was.
\<close>

theorem getPointerId_existing:
  assumes "map_of (idToPointerMap s) ident = Some p"
    and "\<forall>c \<in> set calls. \<not> (snd c = ident \<and> terminal (fst c))"
  shows "fst (getPointerId ty ident (acquireAll calls s)) = p \<and>
    (if terminal ty
     then map_of (idToPointerMap (snd (getPointerId ty ident (acquireAll calls s))))
            = (map_of (idToPointerMap (acquireAll calls s)))(ident := None) \<and>
          map_of (pointerToIdMap (snd (getPointerId ty ident (acquireAll calls s))))
            = (map_of (pointerToIdMap (acquireAll calls s)))(p := None)
     else snd (getPointerId ty ident (acquireAll calls s)) = acquireAll calls s)"
proof -
  have "map_of (idToPointerMap (acquireAll calls s)) ident = Some p"
    using assms by (rule acquireAll_keeps)
  then show ?thesis
    by (simp add: getPointerId_def delete_conv')
qed

theorem getPointerId_existing_witness:
  "fst (getPointerId ''touchend'' 7
          (acquireAll [(''touchmove'', 7), (''touchstart'', 3)]
             (initial\<lparr> idToPointerMap := [(7, 0)], pointerToIdMap := [(0, 7)] \<rparr>))) = 0 \<and>
   map_of (idToPointerMap (snd (getPointerId ''touchend'' 7
          (acquireAll [(''touchmove'', 7), (''touchstart'', 3)]
             (initial\<lparr> idToPointerMap := [(7, 0)], pointerToIdMap := [(0, 7)] \<rparr>))))) 7 = None \<and>
   map_of (pointerToIdMap (snd (getPointerId ''touchend'' 7
          (acquireAll [(''touchmove'', 7), (''touchstart'', 3)]
             (initial\<lparr> idToPointerMap := [(7, 0)], pointerToIdMap := [(0, 7)] \<rparr>))))) 0 = None"
proof -
  let ?s = "initial\<lparr> idToPointerMap := [(7, 0)], pointerToIdMap := [(0, 7)] \<rparr>"
  let ?calls = "[(''touchmove'', 7 :: int), (''touchstart'', 3)]"
  have h1: "map_of (idToPointerMap ?s) 7 = Some 0" by simp
  have h2: "\<forall>c \<in> set ?calls. \<not> (snd c = 7 \<and> terminal (fst c))"
    by (simp add: terminal_def)
  have t: "terminal ''touchend''" by (simp add: terminal_def)
  from getPointerId_existing [OF h1 h2, of "''touchend''"] t show ?thesis
    by simp
qed

text \<open>
  The allocating branch under a terminal event, for an identifier that is not mapped:
  the id returned is the result of the search loop, the least non-negative integer that
  is not a key of \<open>idToPointerMap\<close>; both maps receive the new entry, and nothing removes
  it in that call. The identifier stays mapped to that id through every later run of
  calls that holds no terminal event for the same identifier, and a second terminal event
  for it after such a run returns the id once more and only then unmaps the identifier.
\<close>

lemma getPointerId_allocating_branch:
  assumes "terminal ty"
    and "map_of (idToPointerMap s) ident = None"
  shows "fst (getPointerId ty ident s) = search (idToPointerMap s) 0 \<and>
    0 \<le> fst (getPointerId ty ident s) \<and>
    \<not> has (idToPointerMap s) (fst (getPointerId ty ident s)) \<and>
    (\<forall>q. 0 \<le> q \<and> q < fst (getPointerId ty ident s) \<longrightarrow> has (idToPointerMap s) q) \<and>
    map_of (idToPointerMap (snd (getPointerId ty ident s)))
      = (map_of (idToPointerMap s))(ident \<mapsto> fst (getPointerId ty ident s)) \<and>
    map_of (pointerToIdMap (snd (getPointerId ty ident s)))
      = (map_of (pointerToIdMap s))(fst (getPointerId ty ident s) \<mapsto> ident) \<and>
    (\<forall>calls. (\<forall>c \<in> set calls. \<not> (snd c = ident \<and> terminal (fst c))) \<longrightarrow>
       map_of (idToPointerMap (acquireAll calls (snd (getPointerId ty ident s)))) ident
         = Some (fst (getPointerId ty ident s)) \<and>
       fst (getPointerId ty ident (acquireAll calls (snd (getPointerId ty ident s))))
         = fst (getPointerId ty ident s) \<and>
       map_of (idToPointerMap
         (snd (getPointerId ty ident (acquireAll calls (snd (getPointerId ty ident s)))))) ident
         = None)"
proof -
  let ?p = "search (idToPointerMap s) 0"
  have r: "getPointerId ty ident s
      = (?p, s\<lparr> idToPointerMap := AList.update ident ?p (idToPointerMap s),
                 pointerToIdMap := AList.update ?p ident (pointerToIdMap s) \<rparr>)"
    using assms(2) by (simp add: getPointerId_def Let_def)
  have now: "map_of (idToPointerMap (snd (getPointerId ty ident s))) ident = Some ?p"
    by (simp add: r update_conv')
  have later: "map_of (idToPointerMap (acquireAll calls (snd (getPointerId ty ident s)))) ident
      = Some ?p"
    if "\<forall>c \<in> set calls. \<not> (snd c = ident \<and> terminal (fst c))" for calls
    using now that by (rule acquireAll_keeps)
  have again: "fst (getPointerId ty ident (acquireAll calls (snd (getPointerId ty ident s)))) = ?p \<and>
      map_of (idToPointerMap
        (snd (getPointerId ty ident (acquireAll calls (snd (getPointerId ty ident s)))))) ident
        = None"
    if "\<forall>c \<in> set calls. \<not> (snd c = ident \<and> terminal (fst c))" for calls
    using getPointerId_release [OF later [OF that] assms(1)] by simp
  have below: "has (idToPointerMap s) q" if "0 \<le> q" and "q < ?p" for q
    using that by (rule search_below)
  have fst_p: "fst (getPointerId ty ident s) = ?p" by (simp add: r)
  have maps: "map_of (idToPointerMap (snd (getPointerId ty ident s)))
      = (map_of (idToPointerMap s))(ident \<mapsto> ?p)"
    "map_of (pointerToIdMap (snd (getPointerId ty ident s)))
      = (map_of (pointerToIdMap s))(?p \<mapsto> ident)"
    by (simp_all add: r update_conv')
  show ?thesis
    unfolding fst_p
    using search_ge [of 0 "idToPointerMap s"] search_free [of "idToPointerMap s" 0] below later
      again maps
    by blast
qed

text \<open>
  C10. The claim: a terminal event for an identifier that is not mapped allocates a fresh
  pointer id by the lowest-free search, and the id stays occupied until that identifier
  is terminated again. The entry is indeed made and kept, but the id is not fresh and
  does not stay occupied, since the loop tests the keys of \<open>idToPointerMap\<close>, which are
  raw identifiers. With identifier 1 holding pointer id 0, a \<open>touchend\<close> for the unmapped
  identifier 5 returns 0 as well and overwrites the inverse entry of 0; a following
  \<open>touchstart\<close> for identifier 9 is given 0 once more.
\<close>

theorem getPointerId_terminal_unmapped_collision:
  "getPointerId ''touchend'' 5 (initial\<lparr> idToPointerMap := [(1, 0)], pointerToIdMap := [(0, 1)] \<rparr>)
     = (0, initial\<lparr> idToPointerMap := [(1, 0), (5, 0)], pointerToIdMap := [(0, 5)] \<rparr>) \<and>
   getPointerId ''touchstart'' 9
       (initial\<lparr> idToPointerMap := [(1, 0), (5, 0)], pointerToIdMap := [(0, 5)] \<rparr>)
     = (0, initial\<lparr> idToPointerMap := [(1, 0), (5, 0), (9, 0)], pointerToIdMap := [(0, 9)] \<rparr>)"
  by (simp add: getPointerId_def initial_def has_def terminal_def search_step search_stop)

section \<open>Clearing the overlay\<close>

text \<open>
  C2. The claim: \<open>clearCanvas\<close> clears exactly the intersection of the tracked region
  with the drawable bounds and then resets the tracked region to empty. Amended: when a
  region \<open>(topLeft, bottomRight)\<close> is tracked and the target has a 2d context,
  \<open>clearCanvas\<close> issues one \<open>clearRect(x, y, w, h)\<close> with \<open>x = max(topLeft.x, 0)\<close>,
  \<open>y = max(topLeft.y, 0)\<close>, \<open>w = min(clientWidth, bottomRight.x - x)\<close>,
  \<open>h = min(clientHeight, bottomRight.y - y)\<close>, and for finite numbers the part of that
  rectangle inside the bounds \<open>[0, clientWidth] \<times> [0, clientHeight]\<close> is exactly the
  intersection of the tracked region with the bounds. Without a context nothing is
  cleared. In either case the tracked region is not reset: the same region is still
  tracked after the call, and nothing but the log of cleared rectangles changes.
\<close>

theorem clearCanvas_keeps_region:
  assumes "dirtyPlace s = Some (topLeft, bottomRight)"
  shows "dirtyPlace (clearCanvas doc tgt s) = Some (topLeft, bottomRight) \<and>
    clearCanvas doc tgt s =
      (if context2d (element doc tgt)
       then s\<lparr> cleared := cleared s @
              [(tgt, Math_max (p_x topLeft) (Num 0), Math_max (p_y topLeft) (Num 0),
                Math_min (clientWidth (element doc tgt))
                  (jsub (p_x bottomRight) (Math_max (p_x topLeft) (Num 0))),
                Math_min (clientHeight (element doc tgt))
                  (jsub (p_y bottomRight) (Math_max (p_y topLeft) (Num 0))))] \<rparr>
       else s) \<and>
    (\<forall>tlx tly brx bry cw ch.
       context2d (element doc tgt) \<and>
       topLeft = \<lparr> p_x = Num tlx, p_y = Num tly \<rparr> \<and>
       bottomRight = \<lparr> p_x = Num brx, p_y = Num bry \<rparr> \<and>
       clientWidth (element doc tgt) = Num cw \<and> clientHeight (element doc tgt) = Num ch \<and>
       0 \<le> cw \<and> 0 \<le> ch \<longrightarrow>
       (\<exists>x y w h.
          cleared (clearCanvas doc tgt s) = cleared s @ [(tgt, Num x, Num y, Num w, Num h)] \<and>
          {x .. x + w} \<inter> {0 .. cw} = {tlx .. brx} \<inter> {0 .. cw} \<and>
          {y .. y + h} \<inter> {0 .. ch} = {tly .. bry} \<inter> {0 .. ch}))"
proof -
  have edge: "{max a 0 .. max a 0 + min c (b - max a 0)} \<inter> {0 .. c} = {a .. b} \<inter> {0 .. c}"
    if "0 \<le> c" for a b c :: real
    using that by auto
  show ?thesis
    using assms
    by (auto simp add: clearCanvas_def Let_def jsub_def edge simp del: Int_atLeastAtMost)
qed

theorem clearCanvas_keeps_region_witness:
  "dirtyPlace (clearCanvas (page (box 100 50) (Num 0) (Num 0)) 3
     (updateDirty \<lparr> p_x = Num 5, p_y = Num 5 \<rparr> \<lparr> p_x = Num 20, p_y = Num 20 \<rparr>
        (updateDirty \<lparr> p_x = Num 0, p_y = Num 0 \<rparr> \<lparr> p_x = Num 10, p_y = Num 10 \<rparr> initial)))
     = Some (\<lparr> p_x = Num 0, p_y = Num 0 \<rparr>, \<lparr> p_x = Num 20, p_y = Num 20 \<rparr>) \<and>
   cleared (clearCanvas (page (box 100 50) (Num 0) (Num 0)) 3
     (updateDirty \<lparr> p_x = Num 5, p_y = Num 5 \<rparr> \<lparr> p_x = Num 20, p_y = Num 20 \<rparr>
        (updateDirty \<lparr> p_x = Num 0, p_y = Num 0 \<rparr> \<lparr> p_x = Num 10, p_y = Num 10 \<rparr> initial)))
     = [(3, Num 0, Num 0, Num 20, Num 20)] \<and>
   (\<exists>x y w h.
      cleared (clearCanvas (page (box 100 50) (Num 0) (Num 0)) 3
        (updateDirty \<lparr> p_x = Num 5, p_y = Num 5 \<rparr> \<lparr> p_x = Num 20, p_y = Num 20 \<rparr>
           (updateDirty \<lparr> p_x = Num 0, p_y = Num 0 \<rparr> \<lparr> p_x = Num 10, p_y = Num 10 \<rparr> initial)))
        = [(3, Num x, Num y, Num w, Num h)] \<and>
      {x .. x + w} \<inter> {0 .. 100} = {0 .. 20} \<inter> {0 .. 100} \<and>
      {y .. y + h} \<inter> {0 .. 50} = {0 .. 20} \<inter> {0 .. 50})"
proof -
  let ?doc = "page (box 100 50) (Num 0) (Num 0)"
  let ?s = "updateDirty \<lparr> p_x = Num 5, p_y = Num 5 \<rparr> \<lparr> p_x = Num 20, p_y = Num 20 \<rparr>
     (updateDirty \<lparr> p_x = Num 0, p_y = Num 0 \<rparr> \<lparr> p_x = Num 10, p_y = Num 10 \<rparr> initial)"
  have h: "dirtyPlace ?s = Some (\<lparr> p_x = Num 0, p_y = Num 0 \<rparr>, \<lparr> p_x = Num 20, p_y = Num 20 \<rparr>)"
    by (simp add: updateDirty_def initial_def)
  have c: "cleared ?s = []" by (simp add: updateDirty_def initial_def)
  have b: "context2d (element ?doc 3)" "clientWidth (element ?doc 3) = Num 100"
    "clientHeight (element ?doc 3) = Num 50"
    by (simp_all add: page_def box_def)
  note t = clearCanvas_keeps_region [OF h, of ?doc 3]
  from t have kept: "dirtyPlace (clearCanvas ?doc 3 ?s)
      = Some (\<lparr> p_x = Num 0, p_y = Num 0 \<rparr>, \<lparr> p_x = Num 20, p_y = Num 20 \<rparr>)"
    by (rule conjunct1)
  from t have "clearCanvas ?doc 3 ?s =
      (if context2d (element ?doc 3)
       then ?s\<lparr> cleared := cleared ?s @
              [(3, Math_max (Num 0) (Num 0), Math_max (Num 0) (Num 0),
                Math_min (clientWidth (element ?doc 3)) (jsub (Num 20) (Math_max (Num 0) (Num 0))),
                Math_min (clientHeight (element ?doc 3))
                  (jsub (Num 20) (Math_max (Num 0) (Num 0))))] \<rparr>
       else ?s)"
    by simp
  with b c have rect: "cleared (clearCanvas ?doc 3 ?s) = [(3, Num 0, Num 0, Num 20, Num 20)]"
    by (simp add: jsub_def)
  have "context2d (element ?doc 3) \<and>
      \<lparr> p_x = Num 0, p_y = Num 0 \<rparr> = \<lparr> p_x = Num 0, p_y = Num 0 \<rparr> \<and>
      \<lparr> p_x = Num 20, p_y = Num 20 \<rparr> = \<lparr> p_x = Num 20, p_y = Num 20 \<rparr> \<and>
      clientWidth (element ?doc 3) = Num 100 \<and> clientHeight (element ?doc 3) = Num 50 \<and>
      (0::real) \<le> 100 \<and> (0::real) \<le> 50"
    using b by simp
  with t have "\<exists>x y w h.
      cleared (clearCanvas ?doc 3 ?s) = cleared ?s @ [(3, Num x, Num y, Num w, Num h)] \<and>
      {x .. x + w} \<inter> {0 .. 100} = {0 .. 20} \<inter> {0 .. 100} \<and>
      {y .. y + h} \<inter> {0 .. 50} = {0 .. 20} \<inter> {0 .. 50}"
    by blast
  with c have inter: "\<exists>x y w h.
      cleared (clearCanvas ?doc 3 ?s) = [(3, Num x, Num y, Num w, Num h)] \<and>
      {x .. x + w} \<inter> {0 .. 100} = {0 .. 20} \<inter> {0 .. 100} \<and>
      {y .. y + h} \<inter> {0 .. 50} = {0 .. 20} \<inter> {0 .. 50}"
    by simp
  from kept rect inter show ?thesis by (intro conjI)
qed

text \<open>
  Counterexample to C2 as stated: a region from \<open>(5, 5)\<close> to \<open>(15, 15)\<close> on a 20 by
  20 canvas. The rectangle is cleared, and the region is still tracked after the call.
\<close>

theorem clearCanvas_reset_counterexample:
  "clearCanvas (page (box 20 20) (Num 0) (Num 0)) 0
     (initial\<lparr> dirtyPlace := Some (\<lparr> p_x = Num 5, p_y = Num 5 \<rparr>, \<lparr> p_x = Num 15, p_y = Num 15 \<rparr>) \<rparr>)
   = initial\<lparr> dirtyPlace := Some (\<lparr> p_x = Num 5, p_y = Num 5 \<rparr>, \<lparr> p_x = Num 15, p_y = Num 15 \<rparr>),
              cleared := [(0, Num 5, Num 5, Num 10, Num 10)] \<rparr>"
  by (simp add: clearCanvas_def page_def box_def initial_def Let_def jsub_def)

section \<open>Touch batches\<close>

lemma formatTouches_state:
  "snd (formatTouches doc e screenInfo tag ts events s)
     = acquireAll (map (\<lambda>t. (te_type e, touch_identifier t)) ts) s"
proof (induction ts arbitrary: events s)
  case Nil
  show ?case by simp
next
  case (Cons t ts)
  show ?case
    by (simp add: Cons.IH Let_def split: prod.splits option.splits)
qed

lemma formatTouches_events:
  "length (fst (formatTouches doc e screenInfo tag ts events s))
     \<le> length events + length (filter (\<lambda>t. touch_target t = tag) ts)"
proof (induction ts arbitrary: events s)
  case Nil
  show ?case by simp
next
  case (Cons t ts)
  obtain pointerId s' where g: "getPointerId (te_type e) (touch_identifier t) s = (pointerId, s')"
    by (cases "getPointerId (te_type e) (touch_identifier t) s")
  show ?case
  proof (cases "touch_target t = tag")
    case False
    with Cons.IH [of events s'] show ?thesis by (simp add: g)
  next
    case True
    let ?item = "\<lparr> clientX = touch_clientX t, clientY = touch_clientY t,
                          ev_type = te_type e, target = te_target e, button = 0 \<rparr>"
    show ?thesis
    proof (cases "calculateCoordinates doc ?item screenInfo")
      case None
      with True Cons.IH [of events s'] show ?thesis by (simp add: g)
    next
      case (Some event)
      let ?ev = "\<lparr> tce_action = action (touch event), tce_pointerId = pointerId,
          tce_position = position (touch event), tce_pressure = jmul (force t) (Num 255),
          tce_buttons = buttons (touch event) \<rparr>"
      from Cons.IH [of "events @ [?ev]" s'] True Some show ?thesis by (simp add: g)
    qed
  qed
qed

text \<open>
  C5. The claim: \<open>formatTouchEvent\<close> allocates or releases pointer ids only for the
  changed contacts whose target is the given element. Amended: \<open>getPointerId\<close> is called
  for every changed contact, before the target is compared, so the state after the call
  is that of calling \<open>getPointerId(e.type, touch.identifier)\<close> for each changed contact in
  order, whatever their targets; the comparison with the given element only decides which
  contacts can yield an event, and there are at most as many events as contacts with that
  target.
\<close>

theorem formatTouchEvent_allocates_for_all:
  "snd (formatTouchEvent doc e screenInfo tag s)
     = acquireAll (map (\<lambda>t. (te_type e, touch_identifier t)) (changedTouches e)) s \<and>
   (case fst (formatTouchEvent doc e screenInfo tag s) of
      None \<Rightarrow> True
    | Some events \<Rightarrow>
        length events \<le> length (filter (\<lambda>t. touch_target t = tag) (changedTouches e)))"
proof -
  obtain events s' where f:
    "formatTouches doc e screenInfo tag (changedTouches e) [] s = (events, s')"
    by (cases "formatTouches doc e screenInfo tag (changedTouches e) [] s")
  from formatTouches_state [of doc e screenInfo tag "changedTouches e" "[]" s] f
  have "s' = acquireAll (map (\<lambda>t. (te_type e, touch_identifier t)) (changedTouches e)) s"
    by simp
  moreover from formatTouches_events [of doc e screenInfo tag "changedTouches e" "[]" s] f
  have "length events \<le> length (filter (\<lambda>t. touch_target t = tag) (changedTouches e))"
    by simp
  ultimately show ?thesis by (simp add: formatTouchEvent_def f)
qed

theorem formatTouchEvent_allocates_for_all_witness:
  "idToPointerMap (snd (formatTouchEvent
     (page (box 1000 1000) (Num 0) (Num 0))
     \<lparr> te_type = ''touchstart'', te_target = 1,
       changedTouches = [\<lparr> touch_identifier = 0, touch_target = 1, touch_clientX = Num 10,
                           touch_clientY = Num 10, force = Num 1 \<rparr>,
                         \<lparr> touch_identifier = 1, touch_target = 2, touch_clientX = Num 20,
                           touch_clientY = Num 20, force = Num 1 \<rparr>] \<rparr>
     (video 1000 1000)
     1
     initial)) = [(0, 0), (1, 1)]"
proof -
  let ?doc = "page (box 1000 1000) (Num 0) (Num 0)"
  let ?e = "\<lparr> te_type = ''touchstart'', te_target = 1,
       changedTouches = [\<lparr> touch_identifier = 0, touch_target = 1, touch_clientX = Num 10,
                           touch_clientY = Num 10, force = Num 1 \<rparr>,
                         \<lparr> touch_identifier = 1, touch_target = 2, touch_clientX = Num 20,
                           touch_clientY = Num 20, force = Num 1 \<rparr>] \<rparr>"
  let ?si = "video 1000 1000"
  have "acquireAll (map (\<lambda>t. (te_type ?e, touch_identifier t)) (changedTouches ?e)) initial
      = initial\<lparr> idToPointerMap := [(0, 0), (1, 1)], pointerToIdMap := [(0, 0), (1, 1)] \<rparr>"
    by (simp add: getPointerId_def initial_def has_def search_stop search_step)
  with formatTouchEvent_allocates_for_all [of ?doc ?e ?si 1 initial] show ?thesis
    by simp
qed

text \<open>
  Counterexample to C5 as stated: a \<open>touchstart\<close> whose only contact, identifier 7, has
  another target than the given element. No event comes out, and identifier 7 now holds
  pointer id 0 in both maps.
\<close>

theorem formatTouchEvent_other_target_counterexample:
  "formatTouchEvent
     (page (box 1000 1000) (Num 0) (Num 0))
     \<lparr> te_type = ''touchstart'', te_target = 1,
       changedTouches = [\<lparr> touch_identifier = 7, touch_target = 2, touch_clientX = Num 10,
                           touch_clientY = Num 10, force = Num 1 \<rparr>] \<rparr>
     (video 1000 1000)
     1
     initial
   = (None, initial\<lparr> idToPointerMap := [(7, 0)], pointerToIdMap := [(0, 7)] \<rparr>)"
  by (simp add: formatTouchEvent_def getPointerId_def initial_def has_def search_stop)

section \<open>Coordinate mapping\<close>

lemmas example_defs = page_def box_def video_def mouse_def

lemma ratio_1920_1080:
  "Math_round (jmul (Num 100000) (jdiv (Num 1920) (Num 1080))) = Num 177778"
  "Math_round (jdiv (jmul (Num 100000) (Num 1000)) (Num 1000)) = Num 100000"
  "Math_ceil (jdiv (Num 1000) (jdiv (Num 1920) (Num 1080))) = Num 563"
  "jdiv (jsub (Num 1000) (Num 563)) (Num 2) = Num (437 / 2)"
  by (simp_all add: jsub_def)

text \<open>
  C4. With a 1920 by 1080 video in a 1000 by 1000 box the rendered height is
  \<open>ceil(1000 / (1920 / 1080)) = 563\<close> and the top margin \<open>(1000 - 563) / 2 = 218.5\<close>.
  Every event whose \<open>touchY\<close> lies below 218.5 is mapped to \<open>null\<close>, and an event of a
  known type with \<open>touchY = 500\<close>, the vertical centre of the box, is mapped to a touch
  with \<open>y = 540\<close>, half the video height.
\<close>

theorem calculateCoordinates_letterbox_square:
  assumes "screenInfo = Some \<lparr> videoSize = \<lparr> s_width = Num 1920, s_height = Num 1080 \<rparr> \<rparr>"
    and "clientWidth (element doc (target e)) = Num 1000"
    and "clientHeight (element doc (target e)) = Num 1000"
    and "jadd (jsub (clientY e) (offsetTop (element doc (target e)))) (scrollTop doc) = Num touchY"
  shows "(touchY < 437 / 2 \<longrightarrow> calculateCoordinates doc e screenInfo = None) \<and>
         (touchY = 500 \<and> EVENT_ACTION_MAP (ev_type e) \<noteq> None \<longrightarrow>
            (\<exists>r. calculateCoordinates doc e screenInfo = Some r \<and>
                 p_y (point (position (touch r))) = Num 540 \<and>
                 screenSize (position (touch r)) = \<lparr> s_width = Num 1920, s_height = Num 1080 \<rparr> \<and>
                 client r = \<lparr> s_width = Num 1000, s_height = Num 563 \<rparr>))"
  using assms
  by (auto simp add: calculateCoordinates_def Let_def ratio_1920_1080 jgt_def jsub_def scaled_def
      split: option.splits)

theorem calculateCoordinates_letterbox_square_witness:
  "calculateCoordinates (page (box 1000 1000) (Num 0) (Num 0))
     (mouse ''mousedown'' 300 100 False False) (video 1920 1080) = None \<and>
   (\<exists>r. calculateCoordinates (page (box 1000 1000) (Num 0) (Num 0))
          (mouse ''mousedown'' 300 500 False False) (video 1920 1080) = Some r \<and>
        p_y (point (position (touch r))) = Num 540)"
proof -
  let ?doc = "page (box 1000 1000) (Num 0) (Num 0)"
  let ?a = "mouse ''mousedown'' 300 100 False False"
  let ?b = "mouse ''mousedown'' 300 500 False False"
  have v: "video 1920 1080 = Some \<lparr> videoSize = \<lparr> s_width = Num 1920, s_height = Num 1080 \<rparr> \<rparr>"
    by (simp add: video_def)
  have w: "clientWidth (element ?doc (target ?a)) = Num 1000"
    "clientWidth (element ?doc (target ?b)) = Num 1000"
    and h: "clientHeight (element ?doc (target ?a)) = Num 1000"
    "clientHeight (element ?doc (target ?b)) = Num 1000"
    by (simp_all add: example_defs)
  have ya: "jadd (jsub (clientY ?a) (offsetTop (element ?doc (target ?a)))) (scrollTop ?doc) = Num 100"
    and yb: "jadd (jsub (clientY ?b) (offsetTop (element ?doc (target ?b)))) (scrollTop ?doc) = Num 500"
    by (simp_all add: example_defs jsub_def)
  have known: "EVENT_ACTION_MAP (ev_type ?b) \<noteq> None"
    by (simp add: mouse_def EVENT_ACTION_MAP_def)
  from calculateCoordinates_letterbox_square [OF v w(1) h(1) ya]
  have "calculateCoordinates ?doc ?a (video 1920 1080) = None" by simp
  moreover from calculateCoordinates_letterbox_square [OF v w(2) h(2) yb] known
  have "\<exists>r. calculateCoordinates ?doc ?b (video 1920 1080) = Some r \<and>
        p_y (point (position (touch r))) = Num 540" by auto
  ultimately show ?thesis by (rule conjI)
qed

lemma jdiv_zero_not_Num: "jdiv a (Num 0) \<noteq> Num v"
  by (cases a) (simp_all add: signed_inf_def)

text \<open>
  C6. The claim: an event whose target has \<open>clientWidth = 0\<close> or \<open>clientHeight = 0\<close> is
  mapped to \<open>null\<close>. Amended: \<open>calculateCoordinates\<close> has no test for a zero client size.
  For an event of a known type with the screen info present: if both \<open>clientWidth\<close> and
  \<open>clientHeight\<close> are 0, the result is never \<open>null\<close> but a record with client size 0 by 0
  whose coordinates are \<open>Infinity\<close>, \<open>-Infinity\<close> or \<open>NaN\<close>; if only \<open>clientHeight\<close> is 0
  (video sides positive, width at most 200000 times the height), the result is \<open>null\<close>
  exactly when \<open>touchX\<close> differs from \<open>clientWidth / 2\<close>; if only \<open>clientWidth\<close> is 0 (video sides positive, height at most
  200000 times the width), the result is \<open>null\<close> exactly when \<open>touchY\<close> differs from
  \<open>clientHeight / 2\<close>.
\<close>

theorem calculateCoordinates_zero_size:
  assumes "EVENT_ACTION_MAP (ev_type e) = Some act"
    and "screenInfo = Some info"
  shows "(clientWidth (element doc (target e)) = Num 0 \<and>
          clientHeight (element doc (target e)) = Num 0 \<longrightarrow>
            (\<exists>r. calculateCoordinates doc e screenInfo = Some r \<and>
                 client r = \<lparr> s_width = Num 0, s_height = Num 0 \<rparr> \<and>
                 (\<forall>v. p_x (point (position (touch r))) \<noteq> Num v) \<and>
                 (\<forall>v. p_y (point (position (touch r))) \<noteq> Num v))) \<and>
         (\<forall>w h cw tx.
            videoSize info = \<lparr> s_width = Num w, s_height = Num h \<rparr> \<and> 0 < w \<and> 0 < h \<and>
            w \<le> 200000 * h \<and>
            clientWidth (element doc (target e)) = Num cw \<and> 0 < cw \<and>
            clientHeight (element doc (target e)) = Num 0 \<and>
            jadd (jsub (clientX e) (offsetLeft (element doc (target e)))) (scrollLeft doc) = Num tx
            \<longrightarrow> (calculateCoordinates doc e screenInfo = None \<longleftrightarrow> tx \<noteq> cw / 2)) \<and>
         (\<forall>w h ch ty.
            videoSize info = \<lparr> s_width = Num w, s_height = Num h \<rparr> \<and> 0 < w \<and> 0 < h \<and>
            h \<le> 200000 * w \<and>
            clientWidth (element doc (target e)) = Num 0 \<and>
            clientHeight (element doc (target e)) = Num ch \<and> 0 < ch \<and>
            jadd (jsub (clientY e) (offsetTop (element doc (target e)))) (scrollTop doc) = Num ty
            \<longrightarrow> (calculateCoordinates doc e screenInfo = None \<longleftrightarrow> ty \<noteq> ch / 2))"
proof (intro conjI impI allI)
  assume z: "clientWidth (element doc (target e)) = Num 0 \<and>
      clientHeight (element doc (target e)) = Num 0"
  have nan: "Math_round (jdiv (jmul (Num 100000) (Num 0)) (Num 0)) = NaN" by simp
  have nolt: "\<not> jlt a NaN" "\<not> jlt NaN a" for a by (cases a; simp)+
  show "\<exists>r. calculateCoordinates doc e screenInfo = Some r \<and>
      client r = \<lparr> s_width = Num 0, s_height = Num 0 \<rparr> \<and>
      (\<forall>v. p_x (point (position (touch r))) \<noteq> Num v) \<and>
      (\<forall>v. p_y (point (position (touch r))) \<noteq> Num v)"
    using assms z
    by (simp add: calculateCoordinates_def Let_def nan nolt jgt_def scaled_def jdiv_zero_not_Num)
next
  fix w h cw tx
  assume a: "videoSize info = \<lparr> s_width = Num w, s_height = Num h \<rparr> \<and> 0 < w \<and> 0 < h \<and>
      w \<le> 200000 * h \<and>
      clientWidth (element doc (target e)) = Num cw \<and> 0 < cw \<and>
      clientHeight (element doc (target e)) = Num 0 \<and>
      jadd (jsub (clientX e) (offsetLeft (element doc (target e)))) (scrollLeft doc) = Num tx"
  show "calculateCoordinates doc e screenInfo = None \<longleftrightarrow> tx \<noteq> cw / 2"
    using assms a
    by (auto simp add: calculateCoordinates_def Let_def jgt_def jsub_def signed_inf_def)
next
  fix w h ch ty
  assume a: "videoSize info = \<lparr> s_width = Num w, s_height = Num h \<rparr> \<and> 0 < w \<and> 0 < h \<and>
      h \<le> 200000 * w \<and>
      clientWidth (element doc (target e)) = Num 0 \<and>
      clientHeight (element doc (target e)) = Num ch \<and> 0 < ch \<and>
      jadd (jsub (clientY e) (offsetTop (element doc (target e)))) (scrollTop doc) = Num ty"
  then have "1 \<le> 100000 * w / h + 1 / 2" by (simp add: field_simps)
  then have "1 \<le> \<lfloor>100000 * w / h + 1 / 2\<rfloor>" by linarith
  then have pos: "0 < \<lfloor>100000 * w / h + 1 / 2\<rfloor>" by simp
  show "calculateCoordinates doc e screenInfo = None \<longleftrightarrow> ty \<noteq> ch / 2"
    using assms a pos
    by (auto simp add: calculateCoordinates_def Let_def jgt_def jsub_def signed_inf_def)
qed

theorem calculateCoordinates_zero_size_witness:
  "calculateCoordinates (page (box 0 0) (Num 0) (Num 0))
     (mouse ''mousemove'' 300 100 False False) (video 1920 1080) \<noteq> None \<and>
   calculateCoordinates (page (box 1000 0) (Num 0) (Num 0))
     (mouse ''mousemove'' 300 100 False False) (video 1920 1080) = None \<and>
   calculateCoordinates (page (box 1000 0) (Num 0) (Num 0))
     (mouse ''mousemove'' 500 100 False False) (video 1920 1080) \<noteq> None \<and>
   calculateCoordinates (page (box 0 1000) (Num 0) (Num 0))
     (mouse ''mousemove'' 300 100 False False) (video 1920 1080) = None \<and>
   calculateCoordinates (page (box 0 1000) (Num 0) (Num 0))
     (mouse ''mousemove'' 300 500 False False) (video 1920 1080) \<noteq> None"
proof -
  let ?si = "video 1920 1080"
  let ?info = "\<lparr> videoSize = \<lparr> s_width = Num 1920, s_height = Num 1080 \<rparr> \<rparr>"
  let ?a = "mouse ''mousemove'' 300 100 False False"
  let ?b = "mouse ''mousemove'' 500 100 False False"
  let ?c = "mouse ''mousemove'' 300 500 False False"
  have act: "EVENT_ACTION_MAP (ev_type ?a) = Some ACTION_MOVE"
    "EVENT_ACTION_MAP (ev_type ?b) = Some ACTION_MOVE"
    "EVENT_ACTION_MAP (ev_type ?c) = Some ACTION_MOVE"
    by (simp_all add: mouse_def EVENT_ACTION_MAP_def)
  have si: "?si = Some ?info" by (simp add: video_def)
  have vs: "videoSize ?info = \<lparr> s_width = Num 1920, s_height = Num 1080 \<rparr>" by simp
  let ?d00 = "page (box 0 0) (Num 0) (Num 0)"
  let ?dw = "page (box 1000 0) (Num 0) (Num 0)"
  let ?dh = "page (box 0 1000) (Num 0) (Num 0)"
  have "clientWidth (element ?d00 (target ?a)) = Num 0 \<and>
      clientHeight (element ?d00 (target ?a)) = Num 0"
    by (simp add: example_defs)
  with calculateCoordinates_zero_size [OF act(1) si, of ?d00]
  have p1: "calculateCoordinates ?d00 ?a ?si \<noteq> None" by auto
  have "videoSize ?info = \<lparr> s_width = Num 1920, s_height = Num 1080 \<rparr> \<and>
      (0::real) < 1920 \<and> (0::real) < 1080 \<and> (1920::real) \<le> 200000 * 1080 \<and>
      clientWidth (element ?dw (target ?a)) = Num 1000 \<and> (0::real) < 1000 \<and>
      clientHeight (element ?dw (target ?a)) = Num 0 \<and>
      jadd (jsub (clientX ?a) (offsetLeft (element ?dw (target ?a)))) (scrollLeft ?dw) = Num 300"
    by (simp add: example_defs jsub_def)
  with calculateCoordinates_zero_size [OF act(1) si, of ?dw]
  have "calculateCoordinates ?dw ?a ?si = None \<longleftrightarrow> (300::real) \<noteq> 1000 / 2" by blast
  then have p2: "calculateCoordinates ?dw ?a ?si = None" by simp
  have "videoSize ?info = \<lparr> s_width = Num 1920, s_height = Num 1080 \<rparr> \<and>
      (0::real) < 1920 \<and> (0::real) < 1080 \<and> (1920::real) \<le> 200000 * 1080 \<and>
      clientWidth (element ?dw (target ?b)) = Num 1000 \<and> (0::real) < 1000 \<and>
      clientHeight (element ?dw (target ?b)) = Num 0 \<and>
      jadd (jsub (clientX ?b) (offsetLeft (element ?dw (target ?b)))) (scrollLeft ?dw) = Num 500"
    by (simp add: example_defs jsub_def)
  with calculateCoordinates_zero_size [OF act(2) si, of ?dw]
  have "calculateCoordinates ?dw ?b ?si = None \<longleftrightarrow> (500::real) \<noteq> 1000 / 2" by blast
  then have p3: "calculateCoordinates ?dw ?b ?si \<noteq> None" by simp
  have "videoSize ?info = \<lparr> s_width = Num 1920, s_height = Num 1080 \<rparr> \<and>
      (0::real) < 1920 \<and> (0::real) < 1080 \<and> (1080::real) \<le> 200000 * 1920 \<and>
      clientWidth (element ?dh (target ?a)) = Num 0 \<and>
      clientHeight (element ?dh (target ?a)) = Num 1000 \<and> (0::real) < 1000 \<and>
      jadd (jsub (clientY ?a) (offsetTop (element ?dh (target ?a)))) (scrollTop ?dh) = Num 100"
    by (simp add: example_defs jsub_def)
  with calculateCoordinates_zero_size [OF act(1) si, of ?dh]
  have "calculateCoordinates ?dh ?a ?si = None \<longleftrightarrow> (100::real) \<noteq> 1000 / 2" by blast
  then have p4: "calculateCoordinates ?dh ?a ?si = None" by simp
  have "videoSize ?info = \<lparr> s_width = Num 1920, s_height = Num 1080 \<rparr> \<and>
      (0::real) < 1920 \<and> (0::real) < 1080 \<and> (1080::real) \<le> 200000 * 1920 \<and>
      clientWidth (element ?dh (target ?c)) = Num 0 \<and>
      clientHeight (element ?dh (target ?c)) = Num 1000 \<and> (0::real) < 1000 \<and>
      jadd (jsub (clientY ?c) (offsetTop (element ?dh (target ?c)))) (scrollTop ?dh) = Num 500"
    by (simp add: example_defs jsub_def)
  with calculateCoordinates_zero_size [OF act(3) si, of ?dh]
  have "calculateCoordinates ?dh ?c ?si = None \<longleftrightarrow> (500::real) \<noteq> 1000 / 2" by blast
  then have p5: "calculateCoordinates ?dh ?c ?si \<noteq> None" by simp
  from p1 p2 p3 p4 p5 show ?thesis by simp
qed

text \<open>
  Counterexample to C6 as stated: a \<open>mousedown\<close> on a target of client size 0 by 0 is
  not mapped to \<open>null\<close> but to a touch at \<open>(Infinity, Infinity)\<close>.
\<close>

theorem calculateCoordinates_zero_size_counterexample:
  "calculateCoordinates (page (box 0 0) (Num 0) (Num 0))
     (mouse ''mousedown'' 300 100 False False) (video 1920 1080)
   = Some \<lparr> client = \<lparr> s_width = Num 0, s_height = Num 0 \<rparr>,
            touch = \<lparr> action = ACTION_DOWN,
                      position = \<lparr> point = \<lparr> p_x = PosInf, p_y = PosInf \<rparr>,
                                   screenSize = \<lparr> s_width = Num 1920, s_height = Num 1080 \<rparr> \<rparr>,
                      buttons = Some (ButtonLiteral 17) \<rparr> \<rparr>"
  by (simp add: calculateCoordinates_def example_defs EVENT_ACTION_MAP_def BUTTONS_MAP_def scaled_def
      jsub_def jgt_def Let_def signed_inf_def)

section \<open>Mouse events and the simulated contact\<close>

text \<open>
  With the video as large as the box there is no letterbox and a mouse position is its
  own device point.
\<close>

lemma square_mapping:
  "calculateCoordinates (page (box 1000 1000) (Num 0) (Num 0)) (mouse ''mousemove'' x y ctrl shift)
     (video 1000 1000)
   = Some \<lparr> client = \<lparr> s_width = Num 1000, s_height = Num 1000 \<rparr>,
            touch = \<lparr> action = ACTION_MOVE,
                      position = \<lparr> point = \<lparr> p_x = Num x, p_y = Num y \<rparr>,
                                   screenSize = \<lparr> s_width = Num 1000, s_height = Num 1000 \<rparr> \<rparr>,
                      buttons = Some (ButtonLiteral 17) \<rparr> \<rparr>"
  by (simp add: calculateCoordinates_def example_defs EVENT_ACTION_MAP_def BUTTONS_MAP_def
      scaled_def jsub_def jgt_def Let_def)

text \<open>
  A position in the top margin of the letterboxed 1920 by 1080 video is not mapped.
\<close>

lemma margin_mapping:
  "calculateCoordinates (page (box 1000 1000) (Num 0) (Num 0)) (mouse ''mousemove'' 300 100 ctrl shift)
     (video 1920 1080) = None"
  by (simp add: calculateCoordinates_def example_defs EVENT_ACTION_MAP_def jsub_def jgt_def
      Let_def ratio_1920_1080)

text \<open>
  C8. The claim: every mouse event without \<open>ctrl\<close> returns the single mapped touch and
  resets the simulation state. Amended: a mouse event without \<open>ctrl\<close> whose coordinates
  are mapped returns exactly the mapped touch, whatever the simulation state was, and
  leaves \<open>multiTouchActive\<close> false, \<open>multiTouchCenter\<close> unset and \<open>multiTouchShift\<close>
  false, the state being the reset one after \<open>clearCanvas\<close> on the event's target. A
  mouse event without \<open>ctrl\<close> whose coordinates are not mapped returns \<open>null\<close>, hence no
  opposite point either, and leaves the whole state, the simulation state included, as
  it was.
\<close>

theorem getTouch_without_ctrl:
  assumes "\<not> ctrlKey e"
  shows "(calculateCoordinates doc e screenInfo = None \<longrightarrow>
            getTouch doc e screenInfo s = (None, s)) \<and>
         (\<forall>toc. calculateCoordinates doc e screenInfo = Some toc \<longrightarrow>
            fst (getTouch doc e screenInfo s) = Some [touch toc] \<and>
            multiTouchActive (snd (getTouch doc e screenInfo s)) = False \<and>
            multiTouchCenter (snd (getTouch doc e screenInfo s)) = None \<and>
            multiTouchShift (snd (getTouch doc e screenInfo s)) = False \<and>
            snd (getTouch doc e screenInfo s)
              = clearCanvas doc (target e)
                  (s\<lparr> multiTouchActive := False, multiTouchCenter := None,
                      multiTouchShift := False \<rparr>))"
  using assms
  by (simp add: getTouch_def Let_def clearCanvas_def split: option.splits prod.splits)

theorem getTouch_without_ctrl_witness:
  "getTouch (page (box 1000 1000) (Num 0) (Num 0)) (mouse ''mousemove'' 300 100 False False)
     (video 1920 1080) initial = (None, initial) \<and>
   fst (getTouch (page (box 1000 1000) (Num 0) (Num 0)) (mouse ''mousemove'' 600 600 False False)
          (video 1000 1000)
          (initial\<lparr> multiTouchActive := True, multiTouchShift := True,
                     multiTouchCenter := Some \<lparr> p_x = Num 500, p_y = Num 500 \<rparr> \<rparr>))
     = Some [\<lparr> action = ACTION_MOVE,
               position = \<lparr> point = \<lparr> p_x = Num 600, p_y = Num 600 \<rparr>,
                            screenSize = \<lparr> s_width = Num 1000, s_height = Num 1000 \<rparr> \<rparr>,
               buttons = Some (ButtonLiteral 17) \<rparr>] \<and>
   snd (getTouch (page (box 1000 1000) (Num 0) (Num 0)) (mouse ''mousemove'' 600 600 False False)
          (video 1000 1000)
          (initial\<lparr> multiTouchActive := True, multiTouchShift := True,
                     multiTouchCenter := Some \<lparr> p_x = Num 500, p_y = Num 500 \<rparr> \<rparr>))
     = initial"
proof -
  let ?a = "mouse ''mousemove'' 300 100 False False"
  let ?b = "mouse ''mousemove'' 600 600 False False"
  let ?s = "initial\<lparr> multiTouchActive := True, multiTouchShift := True,
                     multiTouchCenter := Some \<lparr> p_x = Num 500, p_y = Num 500 \<rparr> \<rparr>"
  have ha: "\<not> ctrlKey ?a" and hb: "\<not> ctrlKey ?b" by (simp_all add: mouse_def)
  from getTouch_without_ctrl [OF ha, of "page (box 1000 1000) (Num 0) (Num 0)"
      "video 1920 1080" initial] margin_mapping [of False False]
  have a: "getTouch (page (box 1000 1000) (Num 0) (Num 0)) ?a (video 1920 1080) initial
      = (None, initial)"
    by blast
  from getTouch_without_ctrl [OF hb, of "page (box 1000 1000) (Num 0) (Num 0)"
      "video 1000 1000" ?s] square_mapping [of 600 600 False False]
  have b: "fst (getTouch (page (box 1000 1000) (Num 0) (Num 0)) ?b (video 1000 1000) ?s)
      = Some [\<lparr> action = ACTION_MOVE,
               position = \<lparr> point = \<lparr> p_x = Num 600, p_y = Num 600 \<rparr>,
                            screenSize = \<lparr> s_width = Num 1000, s_height = Num 1000 \<rparr> \<rparr>,
               buttons = Some (ButtonLiteral 17) \<rparr>] \<and>
      snd (getTouch (page (box 1000 1000) (Num 0) (Num 0)) ?b (video 1000 1000) ?s) = initial"
    by (simp add: clearCanvas_def initial_def)
  from a b show ?thesis by simp
qed

text \<open>
  Counterexample to C8 as stated: a shift-anchored simulation is active, and the mouse
  moves without \<open>ctrl\<close> to \<open>(300, 100)\<close>, in the top margin of the letterboxed video.
  \<open>getTouch\<close> returns \<open>null\<close> before it reaches the reset, and the simulation is still
  active, shift-anchored, with its centre.
\<close>

theorem getTouch_without_ctrl_counterexample:
  "getTouch (page (box 1000 1000) (Num 0) (Num 0)) (mouse ''mousemove'' 300 100 False False)
     (video 1920 1080)
     (initial\<lparr> multiTouchActive := True, multiTouchShift := True,
                multiTouchCenter := Some \<lparr> p_x = Num 960, p_y = Num 540 \<rparr> \<rparr>)
   = (None, initial\<lparr> multiTouchActive := True, multiTouchShift := True,
                multiTouchCenter := Some \<lparr> p_x = Num 960, p_y = Num 540 \<rparr> \<rparr>)"
  by (simp add: getTouch_def margin_mapping)

text \<open>
  C3. The claim: in centre-anchored mode the second contact is
  \<open>(client.width - x, client.height - y)\<close>, is always emitted, and always lies in
  \<open>[0, videoWidth] \<times> [0, videoHeight]\<close>. Amended: for a mapped mouse event with \<open>ctrl\<close>
  held, the simulation not shift-anchored and either running already or starting without
  \<open>shift\<close>, the result is the mapped touch followed by a second touch with the same action
  and buttons at \<open>(client.width - x, client.height - y)\<close>, with no range test. That point
  subtracts a device coordinate from a client size, so it is not in range by construction:
  for finite numbers it lies in \<open>[0, videoWidth] \<times> [0, videoHeight]\<close> exactly when
  \<open>client.width - videoWidth \<le> x \<le> client.width\<close> and
  \<open>client.height - videoHeight \<le> y \<le> client.height\<close>.
\<close>

theorem getTouch_center_anchored:
  assumes "ctrlKey e"
    and "calculateCoordinates doc e screenInfo = Some toc"
    and "\<not> multiTouchShift s"
    and "multiTouchActive s \<or> \<not> shiftKey e"
  shows "fst (getTouch doc e screenInfo s)
      = Some [touch toc,
              \<lparr> action = action (touch toc),
                position =
                  \<lparr> point = \<lparr> p_x = jsub (s_width (client toc)) (p_x (point (position (touch toc)))),
                              p_y = jsub (s_height (client toc)) (p_y (point (position (touch toc)))) \<rparr>,
                    screenSize = screenSize (position (touch toc)) \<rparr>,
                buttons = buttons (touch toc) \<rparr>] \<and>
    (\<forall>cw ch x y vw vh.
       client toc = \<lparr> s_width = Num cw, s_height = Num ch \<rparr> \<and>
       point (position (touch toc)) = \<lparr> p_x = Num x, p_y = Num y \<rparr> \<and>
       screenSize (position (touch toc)) = \<lparr> s_width = Num vw, s_height = Num vh \<rparr> \<longrightarrow>
       (inVideoRange
          \<lparr> p_x = jsub (s_width (client toc)) (p_x (point (position (touch toc)))),
            p_y = jsub (s_height (client toc)) (p_y (point (position (touch toc)))) \<rparr>
          (screenSize (position (touch toc)))
        \<longleftrightarrow> cw - vw \<le> x \<and> x \<le> cw \<and> ch - vh \<le> y \<and> y \<le> ch))"
proof -
  have "fst (getTouch doc e screenInfo s)
      = Some [touch toc,
              \<lparr> action = action (touch toc),
                position =
                  \<lparr> point = \<lparr> p_x = jsub (s_width (client toc)) (p_x (point (position (touch toc)))),
                              p_y = jsub (s_height (client toc)) (p_y (point (position (touch toc)))) \<rparr>,
                    screenSize = screenSize (position (touch toc)) \<rparr>,
                buttons = buttons (touch toc) \<rparr>]"
    using assms by (auto simp add: getTouch_def Let_def opposite_def)
  moreover have "inVideoRange
          \<lparr> p_x = jsub (s_width (client toc)) (p_x (point (position (touch toc)))),
            p_y = jsub (s_height (client toc)) (p_y (point (position (touch toc)))) \<rparr>
          (screenSize (position (touch toc)))
        \<longleftrightarrow> cw - vw \<le> x \<and> x \<le> cw \<and> ch - vh \<le> y \<and> y \<le> ch"
    if "client toc = \<lparr> s_width = Num cw, s_height = Num ch \<rparr> \<and>
       point (position (touch toc)) = \<lparr> p_x = Num x, p_y = Num y \<rparr> \<and>
       screenSize (position (touch toc)) = \<lparr> s_width = Num vw, s_height = Num vh \<rparr>"
    for cw ch x y vw vh
    using that by (auto simp add: inVideoRange_def jsub_def)
  ultimately show ?thesis by blast
qed

theorem getTouch_center_anchored_witness:
  "fst (getTouch (page (box 1000 1000) (Num 0) (Num 0)) (mouse ''mousemove'' 600 700 True False)
          (video 1000 1000) initial)
     = Some [\<lparr> action = ACTION_MOVE,
               position = \<lparr> point = \<lparr> p_x = Num 600, p_y = Num 700 \<rparr>,
                            screenSize = \<lparr> s_width = Num 1000, s_height = Num 1000 \<rparr> \<rparr>,
               buttons = Some (ButtonLiteral 17) \<rparr>,
             \<lparr> action = ACTION_MOVE,
               position = \<lparr> point = \<lparr> p_x = Num 400, p_y = Num 300 \<rparr>,
                            screenSize = \<lparr> s_width = Num 1000, s_height = Num 1000 \<rparr> \<rparr>,
               buttons = Some (ButtonLiteral 17) \<rparr>] \<and>
   inVideoRange \<lparr> p_x = Num 400, p_y = Num 300 \<rparr> \<lparr> s_width = Num 1000, s_height = Num 1000 \<rparr>"
proof -
  let ?e = "mouse ''mousemove'' 600 700 True False"
  have h1: "ctrlKey ?e" by (simp add: mouse_def)
  have h3: "\<not> multiTouchShift initial" by (simp add: initial_def)
  have h4: "multiTouchActive initial \<or> \<not> shiftKey ?e" by (simp add: mouse_def)
  note t = getTouch_center_anchored [OF h1 square_mapping [of 600 700 True False] h3 h4]
  from t have a: "fst (getTouch (page (box 1000 1000) (Num 0) (Num 0)) ?e (video 1000 1000) initial)
     = Some [\<lparr> action = ACTION_MOVE,
               position = \<lparr> point = \<lparr> p_x = Num 600, p_y = Num 700 \<rparr>,
                            screenSize = \<lparr> s_width = Num 1000, s_height = Num 1000 \<rparr> \<rparr>,
               buttons = Some (ButtonLiteral 17) \<rparr>,
             \<lparr> action = ACTION_MOVE,
               position = \<lparr> point = \<lparr> p_x = Num 400, p_y = Num 300 \<rparr>,
                            screenSize = \<lparr> s_width = Num 1000, s_height = Num 1000 \<rparr> \<rparr>,
               buttons = Some (ButtonLiteral 17) \<rparr>]"
    by (simp add: jsub_def)
  from t have "inVideoRange \<lparr> p_x = jsub (Num 1000) (Num 600), p_y = jsub (Num 1000) (Num 700) \<rparr>
      \<lparr> s_width = Num 1000, s_height = Num 1000 \<rparr>
      \<longleftrightarrow> (1000::real) - 1000 \<le> 600 \<and> (600::real) \<le> 1000 \<and> (1000::real) - 1000 \<le> 700 \<and> (700::real) \<le> 1000"
    by simp
  then have b: "inVideoRange \<lparr> p_x = Num 400, p_y = Num 300 \<rparr>
      \<lparr> s_width = Num 1000, s_height = Num 1000 \<rparr>"
    by (simp add: jsub_def)
  from a b show ?thesis by (rule conjI)
qed

text \<open>
  Counterexample to C3 as stated: a 1920 by 1080 video shown in a 960 by 540 box, the
  mouse at \<open>(720, 405)\<close> with \<open>ctrl\<close> held. The mapped point is \<open>(1440, 810)\<close> and the
  second contact is emitted at \<open>(960 - 1440, 540 - 810) = (-480, -270)\<close>, outside
  \<open>[0, 1920] \<times> [0, 1080]\<close>.
\<close>

theorem getTouch_center_anchored_counterexample:
  "fst (getTouch (page (box 960 540) (Num 0) (Num 0)) (mouse ''mousemove'' 720 405 True False)
          (video 1920 1080) initial)
     = Some [\<lparr> action = ACTION_MOVE,
               position = \<lparr> point = \<lparr> p_x = Num 1440, p_y = Num 810 \<rparr>,
                            screenSize = \<lparr> s_width = Num 1920, s_height = Num 1080 \<rparr> \<rparr>,
               buttons = Some (ButtonLiteral 17) \<rparr>,
             \<lparr> action = ACTION_MOVE,
               position = \<lparr> point = \<lparr> p_x = Num (- 480), p_y = Num (- 270) \<rparr>,
                            screenSize = \<lparr> s_width = Num 1920, s_height = Num 1080 \<rparr> \<rparr>,
               buttons = Some (ButtonLiteral 17) \<rparr>] \<and>
   \<not> inVideoRange \<lparr> p_x = Num (- 480), p_y = Num (- 270) \<rparr>
       \<lparr> s_width = Num 1920, s_height = Num 1080 \<rparr>"
  by (simp add: getTouch_def opposite_def calculateCoordinates_def example_defs initial_def
      EVENT_ACTION_MAP_def BUTTONS_MAP_def scaled_def jsub_def jgt_def Let_def inVideoRange_def)

text \<open>
  C7. For a mapped mouse event with \<open>ctrl\<close> held in shift-anchored mode with centre
  \<open>c\<close> (the simulation runs shift-anchored with that centre, or it starts now with
  \<open>shift\<close> held and \<open>c\<close> is the mapped point itself), the reflected point is
  \<open>2 * c - point\<close> in device coordinates. If it lies in
  \<open>[0, videoWidth] \<times> [0, videoHeight]\<close> the result is the mapped touch followed by a
  touch at the reflected point with the same action and buttons; otherwise the result is
  the mapped touch alone. The simulation stays active and shift-anchored at \<open>c\<close>.
\<close>

theorem getTouch_shift_anchored:
  assumes "ctrlKey e"
    and "calculateCoordinates doc e screenInfo = Some toc"
    and "(multiTouchActive s \<and> multiTouchShift s \<and> multiTouchCenter s = Some c) \<or>
         (\<not> multiTouchActive s \<and> shiftKey e \<and> c = point (position (touch toc)))"
    and "opp = \<lparr> p_x = jsub (jmul (Num 2) (p_x c)) (p_x (point (position (touch toc)))),
                 p_y = jsub (jmul (Num 2) (p_y c)) (p_y (point (position (touch toc)))) \<rparr>"
  shows "fst (getTouch doc e screenInfo s)
      = Some (if inVideoRange opp (screenSize (position (touch toc)))
              then [touch toc,
                    \<lparr> action = action (touch toc),
                      position = \<lparr> point = opp, screenSize = screenSize (position (touch toc)) \<rparr>,
                      buttons = buttons (touch toc) \<rparr>]
              else [touch toc]) \<and>
    multiTouchActive (snd (getTouch doc e screenInfo s)) \<and>
    multiTouchShift (snd (getTouch doc e screenInfo s)) \<and>
    multiTouchCenter (snd (getTouch doc e screenInfo s)) = Some c"
  using assms
  by (auto simp add: getTouch_def Let_def opposite_def inVideoRange_def jge_def)

theorem getTouch_shift_anchored_witness:
  "fst (getTouch (page (box 1000 1000) (Num 0) (Num 0)) (mouse ''mousemove'' 600 600 True False)
          (video 1000 1000)
          (initial\<lparr> multiTouchActive := True, multiTouchShift := True,
                     multiTouchCenter := Some \<lparr> p_x = Num 500, p_y = Num 500 \<rparr> \<rparr>))
     = Some [\<lparr> action = ACTION_MOVE,
               position = \<lparr> point = \<lparr> p_x = Num 600, p_y = Num 600 \<rparr>,
                            screenSize = \<lparr> s_width = Num 1000, s_height = Num 1000 \<rparr> \<rparr>,
               buttons = Some (ButtonLiteral 17) \<rparr>,
             \<lparr> action = ACTION_MOVE,
               position = \<lparr> point = \<lparr> p_x = Num 400, p_y = Num 400 \<rparr>,
                            screenSize = \<lparr> s_width = Num 1000, s_height = Num 1000 \<rparr> \<rparr>,
               buttons = Some (ButtonLiteral 17) \<rparr>] \<and>
   fst (getTouch (page (box 1000 1000) (Num 0) (Num 0)) (mouse ''mousemove'' 900 900 True False)
          (video 1000 1000)
          (initial\<lparr> multiTouchActive := True, multiTouchShift := True,
                     multiTouchCenter := Some \<lparr> p_x = Num 100, p_y = Num 100 \<rparr> \<rparr>))
     = Some [\<lparr> action = ACTION_MOVE,
               position = \<lparr> point = \<lparr> p_x = Num 900, p_y = Num 900 \<rparr>,
                            screenSize = \<lparr> s_width = Num 1000, s_height = Num 1000 \<rparr> \<rparr>,
               buttons = Some (ButtonLiteral 17) \<rparr>]"
proof -
  let ?a = "mouse ''mousemove'' 600 600 True False"
  let ?b = "mouse ''mousemove'' 900 900 True False"
  let ?sa = "initial\<lparr> multiTouchActive := True, multiTouchShift := True,
                     multiTouchCenter := Some \<lparr> p_x = Num 500, p_y = Num 500 \<rparr> \<rparr>"
  let ?sb = "initial\<lparr> multiTouchActive := True, multiTouchShift := True,
                     multiTouchCenter := Some \<lparr> p_x = Num 100, p_y = Num 100 \<rparr> \<rparr>"
  have ca: "ctrlKey ?a" and cb: "ctrlKey ?b" by (simp_all add: mouse_def)
  have ma: "(multiTouchActive ?sa \<and> multiTouchShift ?sa \<and>
        multiTouchCenter ?sa = Some \<lparr> p_x = Num 500, p_y = Num 500 \<rparr>) \<or>
      (\<not> multiTouchActive ?sa \<and> shiftKey ?a \<and> \<lparr> p_x = Num 500, p_y = Num 500 \<rparr>
        = point (position (touch \<lparr> client = \<lparr> s_width = Num 1000, s_height = Num 1000 \<rparr>,
            touch = \<lparr> action = ACTION_MOVE,
                      position = \<lparr> point = \<lparr> p_x = Num 600, p_y = Num 600 \<rparr>,
                                   screenSize = \<lparr> s_width = Num 1000, s_height = Num 1000 \<rparr> \<rparr>,
                      buttons = Some (ButtonLiteral 17) \<rparr> \<rparr>)))"
    by simp
  have mb: "(multiTouchActive ?sb \<and> multiTouchShift ?sb \<and>
        multiTouchCenter ?sb = Some \<lparr> p_x = Num 100, p_y = Num 100 \<rparr>) \<or>
      (\<not> multiTouchActive ?sb \<and> shiftKey ?b \<and> \<lparr> p_x = Num 100, p_y = Num 100 \<rparr>
        = point (position (touch \<lparr> client = \<lparr> s_width = Num 1000, s_height = Num 1000 \<rparr>,
            touch = \<lparr> action = ACTION_MOVE,
                      position = \<lparr> point = \<lparr> p_x = Num 900, p_y = Num 900 \<rparr>,
                                   screenSize = \<lparr> s_width = Num 1000, s_height = Num 1000 \<rparr> \<rparr>,
                      buttons = Some (ButtonLiteral 17) \<rparr> \<rparr>)))"
    by simp
  from getTouch_shift_anchored [OF ca square_mapping [of 600 600 True False] ma refl]
  have a: "fst (getTouch (page (box 1000 1000) (Num 0) (Num 0)) ?a (video 1000 1000) ?sa)
     = Some [\<lparr> action = ACTION_MOVE,
               position = \<lparr> point = \<lparr> p_x = Num 600, p_y = Num 600 \<rparr>,
                            screenSize = \<lparr> s_width = Num 1000, s_height = Num 1000 \<rparr> \<rparr>,
               buttons = Some (ButtonLiteral 17) \<rparr>,
             \<lparr> action = ACTION_MOVE,
               position = \<lparr> point = \<lparr> p_x = Num 400, p_y = Num 400 \<rparr>,
                            screenSize = \<lparr> s_width = Num 1000, s_height = Num 1000 \<rparr> \<rparr>,
               buttons = Some (ButtonLiteral 17) \<rparr>]"
    by (simp add: inVideoRange_def jsub_def)
  from getTouch_shift_anchored [OF cb square_mapping [of 900 900 True False] mb refl]
  have b: "fst (getTouch (page (box 1000 1000) (Num 0) (Num 0)) ?b (video 1000 1000) ?sb)
     = Some [\<lparr> action = ACTION_MOVE,
               position = \<lparr> point = \<lparr> p_x = Num 900, p_y = Num 900 \<rparr>,
                            screenSize = \<lparr> s_width = Num 1000, s_height = Num 1000 \<rparr> \<rparr>,
               buttons = Some (ButtonLiteral 17) \<rparr>]"
    by (simp add: inVideoRange_def jsub_def)
  from a b show ?thesis by (rule conjI)
qed

end
